theory Spec2Isabelle
  imports Complex_Main
begin

section \<open>The chat assistant of script.js\<close>

text \<open>
  The development embeds the chat part of \<^verbatim>\<open>script.js\<close> (from the banner
  "AI Chat Assistant Implementation" to the end of the file): the module-level
  \<^verbatim>\<open>chatState\<close>, the health check, \<^verbatim>\<open>sendMessage\<close>, the two reply
  paths \<^verbatim>\<open>getAIResponse\<close> and \<^verbatim>\<open>getDemoResponse\<close>, and \<^verbatim>\<open>clearChat\<close>.

  JavaScript strings are modelled as \<open>string\<close>, one \<open>char\<close> per UTF-16 code unit, for the
  code units \<open>U+0000\<close> to \<open>U+00FF\<close>. On that range the three string operations the chat code
  calls (\<^verbatim>\<open>trim\<close>, \<^verbatim>\<open>toLowerCase\<close>, \<^verbatim>\<open>includes\<close>) are written out below.
\<close>

subsection \<open>String operations\<close>

text \<open>
  \<^verbatim>\<open>String.prototype.trim\<close> strips white space and line terminators from both ends.
  Below \<open>U+0100\<close> these are TAB, LF, VT, FF, CR, SPACE and NO-BREAK SPACE.
\<close>

definition is_js_space :: "char \<Rightarrow> bool" where
  "is_js_space c =
     (c = CHR 0x09 \<or> c = CHR 0x0A \<or> c = CHR 0x0B \<or> c = CHR 0x0C \<or> c = CHR 0x0D
      \<or> c = CHR 0x20 \<or> c = CHR 0xA0)"

definition trim :: "string \<Rightarrow> string" where
  "trim s = rev (dropWhile is_js_space (rev (dropWhile is_js_space s)))"

text \<open>
  \<^verbatim>\<open>String.prototype.toLowerCase\<close>: below \<open>U+0100\<close> the letters with a lower-case
  partner are \<open>A\<close> to \<open>Z\<close> and \<open>U+00C0\<close> to \<open>U+00DE\<close> without the multiplication sign
  \<open>U+00D7\<close>; the partner is 32 code units further on.
\<close>

definition lower_char :: "char \<Rightarrow> char" where
  "lower_char c =
     (let n = (of_char c :: nat)
      in if (65 \<le> n \<and> n \<le> 90) \<or> (192 \<le> n \<and> n \<le> 214) \<or> (216 \<le> n \<and> n \<le> 222)
         then char_of (n + 32) else c)"

definition toLowerCase :: "string \<Rightarrow> string" where
  "toLowerCase s = map lower_char s"

text \<open>
  \<^verbatim>\<open>s.includes(t)\<close>, named \<open>includes_str\<close> here: \<open>t\<close> occurs in \<open>s\<close> as a
  contiguous run of code units. \<open>starts_with s t\<close> tests for \<open>t\<close> at the start of \<open>s\<close>.
\<close>

fun starts_with :: "string \<Rightarrow> string \<Rightarrow> bool" where
  "starts_with s [] = True"
| "starts_with [] (d # t) = False"
| "starts_with (c # s) (d # t) = (c = d \<and> starts_with s t)"

fun includes_str :: "string \<Rightarrow> string \<Rightarrow> bool" where
  "includes_str [] t = (t = [])"
| "includes_str (c # s) t = (starts_with (c # s) t \<or> includes_str s t)"

subsection \<open>The demo responder\<close>

text \<open>
  The object \<^verbatim>\<open>demoResponses\<close> of \<^verbatim>\<open>getDemoResponse\<close> has the four keys
  \<^verbatim>\<open>skills\<close>, \<^verbatim>\<open>projects\<close>, \<^verbatim>\<open>ai\<close> and \<^verbatim>\<open>default\<close>.
\<close>

datatype demo_key = Skills | Projects | Ai | Default

fun demoResponses :: "demo_key \<Rightarrow> string" where
  "demoResponses Skills =
     ''I'' @ [CHR 0x27] @ ''m a developer with expertise in JavaScript, HTML & CSS, React, Node.js, and Git. I'' @ [CHR 0x27] @ ''ve also built this AI chat interface using FastAPI and modern LLM integration!''"
| "demoResponses Projects =
     ''I'' @ [CHR 0x27] @ ''ve worked on various projects including this portfolio website with an integrated AI assistant. The AI backend is powered by a FastAPI microservice running on an edge server with Ollama for local LLM hosting.''"
| "demoResponses Ai =
     ''This AI assistant is powered by a FastAPI microservice that I built. It uses OpenAI-compatible endpoints and can connect to Ollama or other LLM backends. The service runs on edge servers for better privacy and control.''"
| "demoResponses Default =
     ''This is demo mode! To enable full AI capabilities, make sure the FastAPI microservice is running. Check out the API documentation for deployment instructions. You can ask me about my skills, projects, or how this AI system works!''"

text \<open>
  The reply text chosen by \<^verbatim>\<open>getDemoResponse\<close>: \<^verbatim>\<open>response\<close> starts as the default
  and the \<^verbatim>\<open>if\<close>/\<^verbatim>\<open>else if\<close> chain over the lower-cased message overwrites it.
\<close>

definition demo_reply :: "string \<Rightarrow> string" where
  "demo_reply userMessage =
     (let lowerMessage = toLowerCase userMessage
      in if includes_str lowerMessage ''skill'' \<or> includes_str lowerMessage ''experience''
         then demoResponses Skills
         else if includes_str lowerMessage ''project''
         then demoResponses Projects
         else if includes_str lowerMessage ''ai'' \<or> includes_str lowerMessage ''work''
                 \<or> includes_str lowerMessage ''assistant''
         then demoResponses Ai
         else demoResponses Default)"

subsection \<open>JavaScript values and thrown errors\<close>

text \<open>
  What \<^verbatim>\<open>response.json()\<close> resolves to, and what a property read on it gives.
  \<open>Undefined\<close> is never parsed from JSON; it is what reading an absent property gives.
  An object is the list of its own properties, each key once.
\<close>

datatype jsval =
    Undefined
  | Null
  | Bool bool
  | Num rat
  | Str string
  | Arr "jsval list"
  | Obj "(string \<times> jsval) list"

datatype js_error =
    NetworkError
  | ApiError nat
  | ApiNotResponding
  | SyntaxError
  | TypeError

text \<open>
  \<^verbatim>\<open>v.k\<close> for the property names the chat code reads (\<^verbatim>\<open>message\<close>,
  \<^verbatim>\<open>content\<close>, \<^verbatim>\<open>model\<close>), none of which a prototype defines: a read on
  \<^verbatim>\<open>null\<close> or \<^verbatim>\<open>undefined\<close> throws a TypeError, a read on an object gives the
  property or \<^verbatim>\<open>undefined\<close>, a read on any other value gives \<^verbatim>\<open>undefined\<close>.
\<close>

fun get_prop :: "jsval \<Rightarrow> string \<Rightarrow> js_error + jsval" where
  "get_prop Undefined k = Inl TypeError"
| "get_prop Null k = Inl TypeError"
| "get_prop (Obj kvs) k = Inr (case map_of kvs k of None \<Rightarrow> Undefined | Some v \<Rightarrow> v)"
| "get_prop v k = Inr Undefined"

subsection \<open>The page: chat state, the chat widgets, the network\<close>

text \<open>
  A transcript entry is the object \<^verbatim>\<open>{ role, content }\<close> pushed on
  \<^verbatim>\<open>chatState.messages\<close>. The content of a user entry is a string; the content of an
  assistant entry on the live path is whatever \<^verbatim>\<open>data.message.content\<close> holds.
\<close>

record message =
  role :: string
  content :: jsval

text \<open>
  The object handed to \<^verbatim>\<open>JSON.stringify\<close> for the body of the chat request, and the
  call \<^verbatim>\<open>fetch(url, { method, headers, body })\<close>. Neither call of \<^verbatim>\<open>fetch\<close>
  in the file passes an abort signal or any other option.
\<close>

record chat_body =
  body_messages :: "message list"
  temperature :: rat
  max_tokens :: nat

record http_request =
  http_method :: string
  url :: string
  headers :: "(string \<times> string) list"
  body :: "chat_body option"

text \<open>
  The first three fields are \<^verbatim>\<open>chatState\<close>. Of the document the model keeps what the
  chat functions read or write and a claim can observe: the host name that selects the base
  URL, the value of \<^verbatim>\<open>chatInput\<close>, the message bubbles that \<^verbatim>\<open>addMessage\<close>
  has appended to \<^verbatim>\<open>chatMessages\<close>, the typing indicator, the disabled flag of
  \<^verbatim>\<open>sendBtn\<close> and the class of \<^verbatim>\<open>statusIndicator\<close>. The welcome panel, the
  demo-mode notice, the status text, scrolling, heights and time stamps are left out; the
  elements looked up at load time are taken to exist. \<open>fetch_log\<close> lists the calls of
  \<^verbatim>\<open>fetch\<close> made so far, oldest first.
\<close>

record page =
  messages :: "message list"
  isConnected :: bool
  isTyping :: bool
  hostname :: string
  input_value :: string
  rendered :: "message list"
  typing_shown :: bool
  send_disabled :: bool
  status_class :: string
  fetch_log :: "http_request list"

text \<open>The state after the script has loaded, \<^verbatim>\<open>chatState\<close> as declared.\<close>

definition initial_page :: "string \<Rightarrow> page" where
  "initial_page host =
     \<lparr> messages = [], isConnected = False, isTyping = False, hostname = host,
       input_value = [], rendered = [], typing_shown = False, send_disabled = False,
       status_class = [], fetch_log = [] \<rparr>"

text \<open>
  How an awaited \<^verbatim>\<open>fetch\<close> ends: the promise is fulfilled with a response, it is
  rejected (no connection, refused, aborted by the browser), or it is never settled. Of a
  response the code reads \<^verbatim>\<open>ok\<close>, \<^verbatim>\<open>status\<close> and \<^verbatim>\<open>json()\<close>;
  \<open>json_body\<close> is \<open>None\<close> when \<^verbatim>\<open>json()\<close> rejects because the body is not JSON.
\<close>

record http_response =
  ok :: bool
  status :: nat
  json_body :: "jsval option"

datatype fetch_outcome = Fulfilled http_response | Rejected | Pending

text \<open>
  How a call of one of the \<^verbatim>\<open>async\<close> functions ends: its promise is fulfilled
  (\<open>Completed\<close>), rejected with a thrown error (\<open>Threw\<close>), or never settled because the
  function is suspended for ever at an \<^verbatim>\<open>await\<close> (\<open>Blocked\<close>). Each carries the page
  as the function left it. A call is followed from its start to its end for a given
  outcome of its request; handlers that the browser could run while the call is suspended
  (a click on the clear button, say) are not interleaved.
\<close>

datatype run = Completed page | Threw js_error page | Blocked page

fun final :: "run \<Rightarrow> page" where
  "final (Completed p) = p"
| "final (Threw e p) = p"
| "final (Blocked p) = p"

subsection \<open>Configuration\<close>

definition baseURL :: "string \<Rightarrow> string" where
  "baseURL host =
     (if host = ''localhost'' \<or> host = ''127.0.0.1''
      then ''http://localhost:8000''
      else ''https://your-edge-server.com/api'')"

definition endpoint_chat :: string where
  "endpoint_chat = ''/v1/chat/completions''"

definition endpoint_health :: string where
  "endpoint_health = ''/health''"

subsection \<open>Widgets\<close>

definition updateStatus :: "string \<Rightarrow> page \<Rightarrow> page" where
  "updateStatus st p = p\<lparr>status_class := ''status-indicator '' @ st\<rparr>"

definition addMessage :: "string \<Rightarrow> jsval \<Rightarrow> page \<Rightarrow> page" where
  "addMessage r c p = p\<lparr>rendered := rendered p @ [\<lparr>role = r, content = c\<rparr>]\<rparr>"

definition showTypingIndicator :: "page \<Rightarrow> page" where
  "showTypingIndicator p = p\<lparr>isTyping := True, send_disabled := True, typing_shown := True\<rparr>"

definition hideTypingIndicator :: "page \<Rightarrow> page" where
  "hideTypingIndicator p = p\<lparr>typing_shown := False, isTyping := False, send_disabled := False\<rparr>"

text \<open>\<^verbatim>\<open>chatState.messages.push({ role, content })\<close>.\<close>

definition push_message :: "string \<Rightarrow> jsval \<Rightarrow> page \<Rightarrow> page" where
  "push_message r c p = p\<lparr>messages := messages p @ [\<lparr>role = r, content = c\<rparr>]\<rparr>"

subsection \<open>checkAPIHealth\<close>

definition health_request :: "page \<Rightarrow> http_request" where
  "health_request p =
     \<lparr> http_method = ''GET'', url = baseURL (hostname p) @ endpoint_health,
       headers = [(''Content-Type'', ''application/json'')], body = None \<rparr>"

text \<open>
  The \<^verbatim>\<open>try\<close> block. \<^verbatim>\<open>chatState.isConnected = true\<close> is executed before the
  argument \<^verbatim>\<open>data.model\<close> of \<^verbatim>\<open>updateStatus\<close> is evaluated, so a throw there
  leaves the flag set for the handler.
\<close>

definition checkAPIHealth_try :: "fetch_outcome \<Rightarrow> page \<Rightarrow> run" where
  "checkAPIHealth_try outcome p =
     (let p1 = p\<lparr>fetch_log := fetch_log p @ [health_request p]\<rparr>
      in case outcome of
           Pending \<Rightarrow> Blocked p1
         | Rejected \<Rightarrow> Threw NetworkError p1
         | Fulfilled response \<Rightarrow>
             if ok response then
               (case json_body response of
                  None \<Rightarrow> Threw SyntaxError p1
                | Some data \<Rightarrow>
                    let p2 = p1\<lparr>isConnected := True\<rparr>
                    in (case get_prop data ''model'' of
                          Inl e \<Rightarrow> Threw e p2
                        | Inr model \<Rightarrow> Completed (updateStatus ''online'' p2)))
             else Threw ApiNotResponding p1)"

text \<open>The \<^verbatim>\<open>catch\<close> block.\<close>

definition checkAPIHealth_catch :: "page \<Rightarrow> page" where
  "checkAPIHealth_catch p = updateStatus ''offline'' (p\<lparr>isConnected := False\<rparr>)"

definition checkAPIHealth :: "fetch_outcome \<Rightarrow> page \<Rightarrow> run" where
  "checkAPIHealth outcome p =
     (case checkAPIHealth_try outcome p of
        Threw e p' \<Rightarrow> Completed (checkAPIHealth_catch p')
      | r \<Rightarrow> r)"

subsection \<open>The two reply paths\<close>

definition chat_request :: "page \<Rightarrow> http_request" where
  "chat_request p =
     \<lparr> http_method = ''POST'', url = baseURL (hostname p) @ endpoint_chat,
       headers = [(''Content-Type'', ''application/json'')],
       body = Some \<lparr> body_messages = messages p, temperature = 7 / 10, max_tokens = 500 \<rparr> \<rparr>"

text \<open>
  The text of the \<^verbatim>\<open>catch\<close> block of \<^verbatim>\<open>getAIResponse\<close>. The literal starts with
  the warning sign \<open>U+26A0 U+FE0F\<close>, which lies above \<open>U+00FF\<close> and is written here as
  its six UTF-8 bytes.
\<close>

definition error_notice :: string where
  "error_notice =
     [CHR 0xE2, CHR 0x9A, CHR 0xA0, CHR 0xEF, CHR 0xB8, CHR 0x8F]
     @ '' Sorry, I encountered an error. The API might be unavailable. Please check if the FastAPI service is running on your edge server.''"

text \<open>The \<^verbatim>\<open>try\<close> block of \<^verbatim>\<open>getAIResponse\<close>; the argument of
  \<^verbatim>\<open>fetch\<close> is built from the page as it is at the call.\<close>

definition getAIResponse_try :: "fetch_outcome \<Rightarrow> page \<Rightarrow> run" where
  "getAIResponse_try outcome p =
     (let p1 = p\<lparr>fetch_log := fetch_log p @ [chat_request p]\<rparr>
      in case outcome of
           Pending \<Rightarrow> Blocked p1
         | Rejected \<Rightarrow> Threw NetworkError p1
         | Fulfilled response \<Rightarrow>
             if \<not> ok response then Threw (ApiError (status response)) p1
             else
               (case json_body response of
                  None \<Rightarrow> Threw SyntaxError p1
                | Some data \<Rightarrow>
                    (case get_prop data ''message'' of
                       Inl e \<Rightarrow> Threw e p1
                     | Inr m \<Rightarrow>
                         (case get_prop m ''content'' of
                            Inl e \<Rightarrow> Threw e p1
                          | Inr assistantMessage \<Rightarrow>
                              Completed
                                (push_message ''assistant'' assistantMessage
                                   (addMessage ''assistant'' assistantMessage p1))))))"

text \<open>The \<^verbatim>\<open>catch\<close> block shows the notice with \<^verbatim>\<open>addMessage\<close> and does
  nothing else.\<close>

definition getAIResponse :: "fetch_outcome \<Rightarrow> string \<Rightarrow> page \<Rightarrow> run" where
  "getAIResponse outcome userMessage p =
     (case getAIResponse_try outcome p of
        Threw e p' \<Rightarrow> Completed (addMessage ''assistant'' (Str error_notice) p')
      | r \<Rightarrow> r)"

text \<open>
  \<^verbatim>\<open>getDemoResponse\<close> awaits a one-second timer, which always fires, and then shows
  and pushes the chosen reply.
\<close>

definition getDemoResponse :: "string \<Rightarrow> page \<Rightarrow> run" where
  "getDemoResponse userMessage p =
     (let response = demo_reply userMessage
      in Completed (push_message ''assistant'' (Str response)
                      (addMessage ''assistant'' (Str response) p)))"

subsection \<open>sendMessage and clearChat\<close>

text \<open>
  \<open>outcome\<close> is how the chat request ends if the call makes one. An empty string is the
  only falsy string, so \<^verbatim>\<open>!message\<close> is \<open>message = []\<close>.
\<close>

definition sendMessage :: "fetch_outcome \<Rightarrow> page \<Rightarrow> run" where
  "sendMessage outcome p =
     (let message = trim (input_value p)
      in if message = [] \<or> isTyping p then Completed p
         else
           let p1 = p\<lparr>input_value := []\<rparr>;
               p2 = addMessage ''user'' (Str message) p1;
               p3 = push_message ''user'' (Str message) p2;
               p4 = showTypingIndicator p3;
               r = (if isConnected p4 then getAIResponse outcome message p4
                    else getDemoResponse message p4)
           in case r of
                Completed p5 \<Rightarrow> Completed (hideTypingIndicator p5)
              | other \<Rightarrow> other)"

text \<open>
  \<open>confirmed\<close> is the answer to the dialog \<^verbatim>\<open>confirm(...)\<close>. Assigning
  \<^verbatim>\<open>chatMessages.innerHTML\<close> replaces every child of the chat area, the typing
  indicator included.
\<close>

definition clearChat :: "bool \<Rightarrow> page \<Rightarrow> page" where
  "clearChat confirmed p =
     (if confirmed then p\<lparr>messages := [], rendered := [], typing_shown := False\<rparr> else p)"

subsection \<open>The responder as a priority table\<close>

text \<open>
  The specification describes the responder as an ordered list of pairs of a predicate and
  a category, tried from the top, with a default at the end. This is that description,
  written independently of \<open>demo_reply\<close>, to be compared with it.
\<close>

definition demo_categories :: "((string \<Rightarrow> bool) \<times> demo_key) list" where
  "demo_categories =
     [(\<lambda>s. includes_str s ''skill'' \<or> includes_str s ''experience'', Skills),
      (\<lambda>s. includes_str s ''project'', Projects),
      (\<lambda>s. includes_str s ''ai'' \<or> includes_str s ''work'' \<or> includes_str s ''assistant'', Ai)]"

fun first_match :: "((string \<Rightarrow> bool) \<times> demo_key) list \<Rightarrow> string \<Rightarrow> demo_key" where
  "first_match [] s = Default"
| "first_match ((pr, k) # rest) s = (if pr s then k else first_match rest s)"

definition respond_category :: "string \<Rightarrow> demo_key" where
  "respond_category text = first_match demo_categories (toLowerCase text)"

subsection \<open>Concrete pages\<close>

text \<open>
  A health reply with a model name, the page after a successful health check on
  \<^verbatim>\<open>localhost\<close>, and the visitor typing into \<^verbatim>\<open>chatInput\<close>.
\<close>

definition healthy_response :: http_response where
  "healthy_response =
     \<lparr> ok = True, status = 200,
       json_body = Some (Obj [(''status'', Str ''healthy''), (''model'', Str ''llama2'')]) \<rparr>"

definition live_page :: page where
  "live_page = final (checkAPIHealth (Fulfilled healthy_response) (initial_page ''localhost''))"

definition typed :: "string \<Rightarrow> page \<Rightarrow> page" where
  "typed txt p = p\<lparr>input_value := txt\<rparr>"

fun is_completed :: "run \<Rightarrow> bool" where
  "is_completed (Completed p) = True"
| "is_completed (Threw e p) = False"
| "is_completed (Blocked p) = False"

section \<open>Properties\<close>

subsection \<open>Strings\<close>

lemma starts_with_iff: "starts_with s t \<longleftrightarrow> (\<exists>v. s = t @ v)"
  by (induction s t rule: starts_with.induct) auto

text \<open>\<open>includes_str\<close> is substring containment.\<close>

lemma includes_str_iff: "includes_str s t \<longleftrightarrow> (\<exists>u v. s = u @ t @ v)"
proof (induction s)
  case Nil
  then show ?case by simp
next
  case (Cons c s)
  show ?case
  proof
    assume "includes_str (c # s) t"
    then consider "starts_with (c # s) t" | "includes_str s t" by auto
    then show "\<exists>u v. c # s = u @ t @ v"
    proof cases
      case 1
      then obtain v where "c # s = t @ v" unfolding starts_with_iff by blast
      then have "c # s = [] @ t @ v" by simp
      then show ?thesis by blast
    next
      case 2
      then obtain u v where "s = u @ t @ v" using Cons.IH by blast
      then have "c # s = (c # u) @ t @ v" by simp
      then show ?thesis by blast
    qed
  next
    assume "\<exists>u v. c # s = u @ t @ v"
    then obtain u v where uv: "c # s = u @ t @ v" by blast
    show "includes_str (c # s) t"
    proof (cases u)
      case Nil
      with uv have "starts_with (c # s) t" unfolding starts_with_iff by auto
      then show ?thesis by simp
    next
      case (Cons d u')
      with uv have "s = u' @ t @ v" by simp
      then have "includes_str s t" using Cons.IH by blast
      then show ?thesis by simp
    qed
  qed
qed

lemma dropWhile_all: "(\<forall>x\<in>set (dropWhile P xs). P x) \<longleftrightarrow> (\<forall>x\<in>set xs. P x)"
  by (induction xs) auto

text \<open>The trimmed input is empty exactly when the input is empty or white space only.\<close>

lemma trim_empty_iff: "trim s = [] \<longleftrightarrow> (\<forall>c\<in>set s. is_js_space c)"
  by (simp add: trim_def dropWhile_eq_Nil_conv dropWhile_all)

lemma lower_skills: "toLowerCase ''Tell me about your skills'' = ''tell me about your skills''"
  by code_simp

lemma lower_asdfgh: "toLowerCase ''asdfgh'' = ''asdfgh''"
  by code_simp

lemma lower_explain: "toLowerCase ''Explain'' = ''explain''"
  by code_simp

subsection \<open>The demo responder\<close>

text \<open>The four replies differ, so a reply determines its category.\<close>

lemma demoResponses_inj: "demoResponses j = demoResponses k \<Longrightarrow> j = k"
  by (cases j; cases k; simp)

lemma demo_reply_category: "demo_reply text = demoResponses (respond_category text)"
  by (simp add: demo_reply_def respond_category_def demo_categories_def Let_def)

text \<open>
  C5. The demo responder is a function of the input text alone: it lower-cases the text
  and takes the first category of the fixed priority list (skills and experience, then
  projects, then the assistant itself) whose keywords occur in it, with the default reply
  when none does; \<^verbatim>\<open>getDemoResponse\<close> appends that reply to the transcript.
  "Tell me about your skills" resolves to the skills category and "asdfgh" to the default.
\<close>

theorem demo_reply_first_match:
  "demo_reply text = demoResponses (first_match demo_categories (toLowerCase text))
   \<and> messages (final (getDemoResponse text p))
       = messages p @ [\<lparr>role = ''assistant'',
                         content = Str (demoResponses (respond_category text))\<rparr>]
   \<and> respond_category ''Tell me about your skills'' = Skills
   \<and> demo_reply ''Tell me about your skills'' = demoResponses Skills
   \<and> respond_category ''asdfgh'' = Default
   \<and> demo_reply ''asdfgh'' = demoResponses Default"
proof -
  have a: "respond_category ''Tell me about your skills'' = Skills"
    by (simp add: respond_category_def demo_categories_def lower_skills)
  have b: "respond_category ''asdfgh'' = Default"
    by (simp add: respond_category_def demo_categories_def lower_asdfgh)
  have c: "messages (final (getDemoResponse text p))
       = messages p @ [\<lparr>role = ''assistant'',
                         content = Str (demoResponses (respond_category text))\<rparr>]"
    by (simp add: getDemoResponse_def Let_def push_message_def addMessage_def
        demo_reply_category)
  have d: "demo_reply text = demoResponses (first_match demo_categories (toLowerCase text))"
    by (simp add: demo_reply_category respond_category_def)
  show ?thesis using a b c d demo_reply_category by simp
qed

text \<open>
  C10. Keywords are matched as substrings of the lower-cased input, not as words: whenever
  the lower-cased input contains "ai" anywhere and contains none of "skill", "experience"
  and "project", the reply is the one of the assistant category, not the default.
\<close>

theorem demo_reply_ai_substring:
  assumes "\<exists>u v. toLowerCase text = u @ ''ai'' @ v"
    and "\<not> includes_str (toLowerCase text) ''skill''"
    and "\<not> includes_str (toLowerCase text) ''experience''"
    and "\<not> includes_str (toLowerCase text) ''project''"
  shows "demo_reply text = demoResponses Ai \<and> demo_reply text \<noteq> demoResponses Default"
proof -
  from assms(1) have "includes_str (toLowerCase text) ''ai''"
    unfolding includes_str_iff .
  with assms(2-4) show ?thesis by (simp add: demo_reply_def Let_def)
qed

theorem demo_reply_ai_substring_witness:
  "(\<exists>u v. toLowerCase ''Explain'' = u @ ''ai'' @ v)
   \<and> \<not> includes_str (toLowerCase ''Explain'') ''skill''
   \<and> \<not> includes_str (toLowerCase ''Explain'') ''experience''
   \<and> \<not> includes_str (toLowerCase ''Explain'') ''project''
   \<and> demo_reply ''Explain'' = demoResponses Ai"
proof -
  have "toLowerCase ''Explain'' = ''expl'' @ ''ai'' @ ''n''" by (simp add: lower_explain)
  then have h1: "\<exists>u v. toLowerCase ''Explain'' = u @ ''ai'' @ v" by blast
  have h2: "\<not> includes_str (toLowerCase ''Explain'') ''skill''" by (simp add: lower_explain)
  have h3: "\<not> includes_str (toLowerCase ''Explain'') ''experience''" by (simp add: lower_explain)
  have h4: "\<not> includes_str (toLowerCase ''Explain'') ''project''" by (simp add: lower_explain)
  show ?thesis using demo_reply_ai_substring [OF h1 h2 h3 h4] h1 h2 h3 h4 by simp
qed

subsection \<open>The health check\<close>

lemmas page_ops =
  sendMessage_def getAIResponse_def getAIResponse_try_def getDemoResponse_def
  checkAPIHealth_def checkAPIHealth_try_def checkAPIHealth_catch_def updateStatus_def
  addMessage_def push_message_def showTypingIndicator_def hideTypingIndicator_def
  chat_request_def health_request_def initial_page_def typed_def live_page_def
  healthy_response_def trim_def is_js_space_def Let_def

lemma live_page_eq:
  "live_page = (initial_page ''localhost'')
     \<lparr>isConnected := True, status_class := ''status-indicator online'',
      fetch_log := [health_request (initial_page ''localhost'')]\<rparr>"
  by (simp add: page_ops)

text \<open>
  C3, as stated, fails at two inputs. The call of \<^verbatim>\<open>fetch\<close> carries no abort signal
  and the file configures no timeout, so a health request that is never answered leaves
  \<^verbatim>\<open>checkAPIHealth\<close> suspended: it does not complete within any bound. And a
  response with a success status whose body is not JSON ends in demo mode, not live mode.
\<close>

theorem checkAPIHealth_unbounded_counterexample:
  "\<not> is_completed (checkAPIHealth Pending (initial_page ''localhost''))
   \<and> ok \<lparr>ok = True, status = 200, json_body = None\<rparr>
   \<and> \<not> isConnected
         (final (checkAPIHealth (Fulfilled \<lparr>ok = True, status = 200, json_body = None\<rparr>)
                   (initial_page ''localhost'')))"
  by (simp add: page_ops)

text \<open>
  C3, amended. \<^verbatim>\<open>checkAPIHealth\<close> never throws. Whenever the health request
  settles, the call completes; it leaves \<^verbatim>\<open>isConnected\<close> true exactly when the
  response has a success status and its body parses as JSON to a value other than
  \<^verbatim>\<open>null\<close>, and false in every other case (rejected request, non-success status,
  body that is not JSON, \<^verbatim>\<open>null\<close> body); transcript and pending flag are untouched.
  No timeout is configured: while the request stays unsettled the call stays suspended
  with the page unchanged apart from the logged request.
\<close>

theorem checkAPIHealth_outcomes:
  "(outcome \<noteq> Pending \<longrightarrow>
      (\<exists>p'. checkAPIHealth outcome p = Completed p'
         \<and> (isConnected p' \<longleftrightarrow>
              (\<exists>r d. outcome = Fulfilled r \<and> ok r \<and> json_body r = Some d
                     \<and> d \<noteq> Null \<and> d \<noteq> Undefined))
         \<and> messages p' = messages p \<and> isTyping p' = isTyping p))
   \<and> (outcome = Pending \<longrightarrow>
        checkAPIHealth outcome p = Blocked (p\<lparr>fetch_log := fetch_log p @ [health_request p]\<rparr>))
   \<and> (\<forall>e q. checkAPIHealth outcome p \<noteq> Threw e q)"
proof (cases outcome)
  case (Fulfilled r)
  show ?thesis
  proof (cases "json_body r")
    case None
    with Fulfilled show ?thesis
      by (simp add: checkAPIHealth_def checkAPIHealth_try_def checkAPIHealth_catch_def
          updateStatus_def Let_def)
  next
    case (Some d)
    with Fulfilled show ?thesis
      by (cases d)
         (simp_all add: checkAPIHealth_def checkAPIHealth_try_def checkAPIHealth_catch_def
            updateStatus_def Let_def)
  qed
next
  case Rejected
  then show ?thesis
    by (simp add: checkAPIHealth_def checkAPIHealth_try_def checkAPIHealth_catch_def
        updateStatus_def Let_def)
next
  case Pending
  then show ?thesis
    by (simp add: checkAPIHealth_def checkAPIHealth_try_def Let_def)
qed

theorem checkAPIHealth_outcomes_witness:
  "Fulfilled healthy_response \<noteq> Pending \<and> Rejected \<noteq> Pending
   \<and> isConnected (final (checkAPIHealth (Fulfilled healthy_response) (initial_page ''localhost'')))
   \<and> \<not> isConnected (final (checkAPIHealth Rejected live_page))
   \<and> \<not> is_completed (checkAPIHealth Pending (initial_page ''localhost''))"
proof -
  have a: "\<exists>r d. Fulfilled healthy_response = Fulfilled r \<and> ok r \<and> json_body r = Some d
                 \<and> d \<noteq> Null \<and> d \<noteq> Undefined"
    by (simp add: healthy_response_def)
  have b: "\<not> (\<exists>r d. Rejected = Fulfilled r \<and> ok r \<and> json_body r = Some d
                    \<and> d \<noteq> Null \<and> d \<noteq> Undefined)"
    by simp
  from checkAPIHealth_outcomes [of "Fulfilled healthy_response" "initial_page ''localhost''"] a
  have c: "isConnected (final (checkAPIHealth (Fulfilled healthy_response)
                                 (initial_page ''localhost'')))"
    by auto
  from checkAPIHealth_outcomes [of Rejected live_page] b
  have d: "\<not> isConnected (final (checkAPIHealth Rejected live_page))"
    by auto
  from checkAPIHealth_outcomes [of Pending "initial_page ''localhost''"]
  have e: "\<not> is_completed (checkAPIHealth Pending (initial_page ''localhost''))"
    by simp
  from c d e show ?thesis by simp
qed

subsection \<open>The guard of sendMessage\<close>

text \<open>
  C2. A call of \<^verbatim>\<open>sendMessage\<close> made while a request is in flight
  (\<^verbatim>\<open>isTyping\<close> is true), or with an input that is empty or white space only, returns
  at once and changes nothing: the transcript, the pending flag and the list of requests
  issued are as before.
\<close>

theorem sendMessage_guard_noop:
  "(\<forall>c\<in>set (input_value p). is_js_space c) \<or> isTyping p \<Longrightarrow>
     sendMessage outcome p = Completed p
     \<and> messages (final (sendMessage outcome p)) = messages p
     \<and> isTyping (final (sendMessage outcome p)) = isTyping p
     \<and> fetch_log (final (sendMessage outcome p)) = fetch_log p"
  unfolding trim_empty_iff [symmetric] by (auto simp add: sendMessage_def Let_def)

theorem sendMessage_guard_noop_witness:
  "trim (input_value (typed [CHR 0x20, CHR 0x09, CHR 0x0A] live_page)) = []
   \<and> sendMessage Rejected (typed [CHR 0x20, CHR 0x09, CHR 0x0A] live_page)
       = Completed (typed [CHR 0x20, CHR 0x09, CHR 0x0A] live_page)
   \<and> isTyping (final (sendMessage Pending (typed ''hello'' live_page)))
   \<and> sendMessage Rejected (typed ''again'' (final (sendMessage Pending (typed ''hello'' live_page))))
       = Completed (typed ''again'' (final (sendMessage Pending (typed ''hello'' live_page))))"
proof -
  let ?p = "typed [CHR 0x20, CHR 0x09, CHR 0x0A] live_page"
  let ?q = "typed ''again'' (final (sendMessage Pending (typed ''hello'' live_page)))"
  have h1: "\<forall>c\<in>set (input_value ?p). is_js_space c"
    by (simp add: typed_def is_js_space_def)
  have h2: "isTyping (final (sendMessage Pending (typed ''hello'' live_page)))"
    by (simp add: page_ops)
  then have h3: "isTyping ?q" by (simp add: typed_def)
  have h4: "trim (input_value ?p) = []" using h1 unfolding trim_empty_iff .
  show ?thesis
    using h1 h2 h3 h4 sendMessage_guard_noop [of ?p Rejected]
      sendMessage_guard_noop [of ?q Rejected]
    by blast
qed

subsection \<open>One turn of sendMessage\<close>

lemma getAIResponse_try_log:
  "fetch_log (final (getAIResponse_try outcome p)) = fetch_log p @ [chat_request p]"
  by (cases outcome)
     (simp_all add: getAIResponse_try_def Let_def push_message_def addMessage_def
        split: option.splits sum.splits)

lemma getAIResponse_log:
  "fetch_log (final (getAIResponse outcome m p)) = fetch_log p @ [chat_request p]"
  using getAIResponse_try_log [of outcome p]
  by (cases "getAIResponse_try outcome p") (simp_all add: getAIResponse_def addMessage_def)

lemma final_hide_log:
  "fetch_log (final (case r of Completed p5 \<Rightarrow> Completed (hideTypingIndicator p5)
                             | Threw e q \<Rightarrow> Threw e q | Blocked q \<Rightarrow> Blocked q))
     = fetch_log (final r)"
  by (cases r) (simp_all add: hideTypingIndicator_def)

lemma sendMessage_live_log:
  assumes "trim (input_value p) \<noteq> []" and "\<not> isTyping p" and "isConnected p"
  shows "fetch_log (final (sendMessage outcome p)) =
           fetch_log p @ [chat_request (p\<lparr>messages := messages p @
              [\<lparr>role = ''user'', content = Str (trim (input_value p))\<rparr>]\<rparr>)]"
  using assms
  by (simp add: sendMessage_def Let_def final_hide_log getAIResponse_log
      showTypingIndicator_def push_message_def addMessage_def chat_request_def)

text \<open>In demo mode a turn appends the user entry and the demo reply, and sends nothing.\<close>

lemma sendMessage_demo_turn:
  assumes "trim (input_value p) \<noteq> []" and "\<not> isTyping p" and "\<not> isConnected p"
  shows "\<exists>q. sendMessage outcome p = Completed q
           \<and> messages q = messages p @
                [\<lparr>role = ''user'', content = Str (trim (input_value p))\<rparr>,
                 \<lparr>role = ''assistant'', content = Str (demo_reply (trim (input_value p)))\<rparr>]
           \<and> \<not> isTyping q \<and> fetch_log q = fetch_log p"
  using assms
  by (simp add: sendMessage_def getDemoResponse_def Let_def showTypingIndicator_def
      hideTypingIndicator_def push_message_def addMessage_def)

text \<open>In live mode a reply whose \<^verbatim>\<open>message.content\<close> can be read is appended after
  the user entry.\<close>

lemma sendMessage_live_reply_turn:
  assumes "trim (input_value p) \<noteq> []" and "\<not> isTyping p" and "isConnected p"
    and "ok r" and "json_body r = Some d"
    and "get_prop d ''message'' = Inr m" and "get_prop m ''content'' = Inr c"
  shows "\<exists>q. sendMessage (Fulfilled r) p = Completed q
           \<and> messages q = messages p @
                [\<lparr>role = ''user'', content = Str (trim (input_value p))\<rparr>,
                 \<lparr>role = ''assistant'', content = c\<rparr>]
           \<and> \<not> isTyping q"
  using assms
  by (simp add: sendMessage_def getAIResponse_def getAIResponse_try_def Let_def
      showTypingIndicator_def hideTypingIndicator_def push_message_def addMessage_def)

text \<open>
  In live mode a rejected request, a non-success status or a body that is not JSON ends
  in the \<^verbatim>\<open>catch\<close> block: the notice is shown in the chat area, the transcript keeps
  the user entry and gains no assistant entry, and the mode stays live.
\<close>

lemma sendMessage_live_failure_turn:
  assumes "trim (input_value p) \<noteq> []" and "\<not> isTyping p" and "isConnected p"
    and "outcome = Rejected \<or> (\<exists>r. outcome = Fulfilled r \<and> (\<not> ok r \<or> json_body r = None))"
  shows "\<exists>q. sendMessage outcome p = Completed q
           \<and> messages q = messages p @
                [\<lparr>role = ''user'', content = Str (trim (input_value p))\<rparr>]
           \<and> rendered q = rendered p @
                [\<lparr>role = ''user'', content = Str (trim (input_value p))\<rparr>,
                 \<lparr>role = ''assistant'', content = Str error_notice\<rparr>]
           \<and> isConnected q \<and> \<not> isTyping q"
  using assms
  by (auto simp add: sendMessage_def getAIResponse_def getAIResponse_try_def Let_def
      showTypingIndicator_def hideTypingIndicator_def push_message_def addMessage_def)

text \<open>
  C1. Every submission of a non-empty input made while no request is in flight should
  lengthen the transcript by exactly two entries, the user entry and then one assistant
  entry, on the failure path as on the success path. Evaluated on the live page with the
  input "hello" and a chat request that is rejected, \<^verbatim>\<open>sendMessage\<close> completes with
  a transcript of one entry, the user entry alone: the \<^verbatim>\<open>catch\<close> block of
  \<^verbatim>\<open>getAIResponse\<close> calls \<^verbatim>\<open>addMessage\<close> and omits the push that the success
  path and the demo path perform.
\<close>

theorem sendMessage_live_rejected_leaves_user_unpaired:
  "messages live_page = [] \<and> isConnected live_page \<and> \<not> isTyping live_page
   \<and> is_completed (sendMessage Rejected (typed ''hello'' live_page))
   \<and> messages (final (sendMessage Rejected (typed ''hello'' live_page)))
       = [\<lparr>role = ''user'', content = Str ''hello''\<rparr>]
   \<and> length (messages (final (sendMessage Rejected (typed ''hello'' live_page))))
       = length (messages (typed ''hello'' live_page)) + 1"
  by (simp add: page_ops)

text \<open>
  C4. A live turn whose request fails should leave exactly one locally generated assistant
  entry in the transcript and keep the mode. Evaluated on the live page with the input
  "hello" and a reply of status 500: the notice is shown in the chat area and the mode
  stays live, but the transcript holds the user entry only and gains no assistant entry.
\<close>

theorem sendMessage_live_error_status_notice_only:
  "isConnected live_page
   \<and> is_completed (sendMessage (Fulfilled \<lparr>ok = False, status = 500, json_body = None\<rparr>)
                     (typed ''hello'' live_page))
   \<and> messages (final (sendMessage (Fulfilled \<lparr>ok = False, status = 500, json_body = None\<rparr>)
                        (typed ''hello'' live_page)))
       = [\<lparr>role = ''user'', content = Str ''hello''\<rparr>]
   \<and> rendered (final (sendMessage (Fulfilled \<lparr>ok = False, status = 500, json_body = None\<rparr>)
                        (typed ''hello'' live_page)))
       = [\<lparr>role = ''user'', content = Str ''hello''\<rparr>,
          \<lparr>role = ''assistant'', content = Str error_notice\<rparr>]
   \<and> isConnected (final (sendMessage (Fulfilled \<lparr>ok = False, status = 500, json_body = None\<rparr>)
                           (typed ''hello'' live_page)))"
  by (simp add: page_ops)

text \<open>
  C7. On every live turn the \<^verbatim>\<open>messages\<close> array of the request body is the
  transcript as it was before the call followed by the new user entry: the push precedes
  the construction of the body. This holds however the request ends.
\<close>

theorem sendMessage_live_body_messages:
  assumes "trim (input_value p) \<noteq> []" and "\<not> isTyping p" and "isConnected p"
  shows "\<exists>rq b. fetch_log (final (sendMessage outcome p)) = fetch_log p @ [rq]
           \<and> body rq = Some b
           \<and> body_messages b = messages p @
                [\<lparr>role = ''user'', content = Str (trim (input_value p))\<rparr>]"
  using sendMessage_live_log [OF assms, of outcome] by (simp add: chat_request_def)

theorem sendMessage_live_body_messages_witness:
  "trim (input_value (typed ''hello'' live_page)) \<noteq> []
   \<and> \<not> isTyping (typed ''hello'' live_page)
   \<and> isConnected (typed ''hello'' live_page)
   \<and> (\<exists>rq b. fetch_log (final (sendMessage Rejected (typed ''hello'' live_page)))
                 = fetch_log (typed ''hello'' live_page) @ [rq]
           \<and> body rq = Some b
           \<and> body_messages b = [\<lparr>role = ''user'', content = Str ''hello''\<rparr>])"
proof -
  have t: "trim (input_value (typed ''hello'' live_page)) = ''hello''"
    by (simp add: typed_def trim_def is_js_space_def)
  have h1: "trim (input_value (typed ''hello'' live_page)) \<noteq> []" using t by simp
  have h2: "\<not> isTyping (typed ''hello'' live_page)" by (simp add: page_ops)
  have h3: "isConnected (typed ''hello'' live_page)" by (simp add: page_ops)
  have m: "messages (typed ''hello'' live_page) = []" by (simp add: page_ops)
  show ?thesis
    using sendMessage_live_body_messages [OF h1 h2 h3, of Rejected] h1 h2 h3 t m by simp
qed

text \<open>
  C9. Every live submission sends one POST request to the chat completions endpoint, and
  its body carries \<^verbatim>\<open>temperature\<close> 0.7 and \<^verbatim>\<open>max_tokens\<close> 500, whatever the
  input and the transcript are.
\<close>

theorem sendMessage_live_sampling_parameters:
  assumes "trim (input_value p) \<noteq> []" and "\<not> isTyping p" and "isConnected p"
  shows "\<exists>rq b. fetch_log (final (sendMessage outcome p)) = fetch_log p @ [rq]
           \<and> http_method rq = ''POST'' \<and> url rq = baseURL (hostname p) @ endpoint_chat
           \<and> body rq = Some b \<and> temperature b = 7 / 10 \<and> max_tokens b = 500"
  using sendMessage_live_log [OF assms, of outcome] by (simp add: chat_request_def)

theorem sendMessage_live_sampling_parameters_witness:
  "trim (input_value (typed ''What projects have you worked on?'' live_page)) \<noteq> []
   \<and> \<not> isTyping (typed ''What projects have you worked on?'' live_page)
   \<and> isConnected (typed ''What projects have you worked on?'' live_page)
   \<and> (\<exists>rq b. fetch_log (final (sendMessage Pending
                                   (typed ''What projects have you worked on?'' live_page)))
                 = fetch_log (typed ''What projects have you worked on?'' live_page) @ [rq]
           \<and> url rq = ''http://localhost:8000/v1/chat/completions''
           \<and> body rq = Some b \<and> temperature b = 7 / 10 \<and> max_tokens b = 500)"
proof -
  let ?p = "typed ''What projects have you worked on?'' live_page"
  have h1: "trim (input_value ?p) \<noteq> []"
    by (simp add: typed_def trim_def is_js_space_def)
  have h2: "\<not> isTyping ?p" by (simp add: page_ops)
  have h3: "isConnected ?p" by (simp add: page_ops)
  have u: "baseURL (hostname ?p) @ endpoint_chat = ''http://localhost:8000/v1/chat/completions''"
    by (simp add: page_ops baseURL_def endpoint_chat_def)
  show ?thesis
    using sendMessage_live_sampling_parameters [OF h1 h2 h3, of Pending] h1 h2 h3 u by auto
qed

subsection \<open>clearChat\<close>

text \<open>
  C6, as stated, fails when the visitor declines the confirmation dialog: the transcript
  left by a turn is still there after \<^verbatim>\<open>clearChat\<close>.
\<close>

theorem clearChat_declined_counterexample:
  "messages (final (sendMessage Rejected (typed ''hello'' live_page))) \<noteq> []
   \<and> messages (clearChat False (final (sendMessage Rejected (typed ''hello'' live_page))))
       \<noteq> []"
  by (simp add: page_ops clearChat_def)

text \<open>
  C6, amended. In every state, \<^verbatim>\<open>clearChat\<close> empties the transcript once the visitor
  has confirmed the dialog; it sends no request, so it does not probe health again, and it
  leaves \<^verbatim>\<open>isConnected\<close> and the pending flag as they are. When the visitor declines,
  nothing changes.
\<close>

theorem clearChat_effect:
  "messages (clearChat True p) = []
   \<and> isConnected (clearChat True p) = isConnected p
   \<and> isTyping (clearChat True p) = isTyping p
   \<and> fetch_log (clearChat True p) = fetch_log p
   \<and> clearChat False p = p"
  by (simp add: clearChat_def)

end
